theory Spec2Isabelle
  imports Complex_Main "HOL-Library.AList" "HOL-Library.Sublist"
begin

section \<open>Python values\<close>

text \<open>
  The values that reach the client logic are the ones \<^verbatim>\<open>json.loads\<close> builds and the ones
  the front end passes to the publish functions: \<^verbatim>\<open>None\<close>, booleans, integers, floats,
  strings, lists and dictionaries with string keys. A dictionary is an association list
  in insertion order. A float is modelled by the real number it denotes; NaN and the
  infinities are left out of the model.
\<close>

datatype pyval =
    PNone
  | PBool bool
  | PInt int
  | PFloat real
  | PStr string
  | PList "pyval list"
  | PDict "(string \<times> pyval) list"

text \<open>
  The exceptions the code can raise. \<^verbatim>\<open>JSONDecodeError\<close> and \<^verbatim>\<open>UnicodeDecodeError\<close> are
  subclasses of \<^verbatim>\<open>ValueError\<close>, so an \<^verbatim>\<open>except ValueError\<close> clause catches them too.
\<close>

datatype exn = ValueError | TypeError | KeyError | JSONDecodeError | UnicodeDecodeError | OSError

fun is_ValueError :: "exn \<Rightarrow> bool" where
  "is_ValueError ValueError = True"
| "is_ValueError JSONDecodeError = True"
| "is_ValueError UnicodeDecodeError = True"
| "is_ValueError _ = False"

text \<open>\<^verbatim>\<open>isinstance(v, (int, float))\<close>: \<^verbatim>\<open>bool\<close> is a subclass of \<^verbatim>\<open>int\<close>.\<close>

fun isinstance_int_float :: "pyval \<Rightarrow> bool" where
  "isinstance_int_float (PBool b) = True"
| "isinstance_int_float (PInt n) = True"
| "isinstance_int_float (PFloat r) = True"
| "isinstance_int_float _ = False"

fun isinstance_bool :: "pyval \<Rightarrow> bool" where
  "isinstance_bool (PBool b) = True"
| "isinstance_bool _ = False"

text \<open>\<^verbatim>\<open>v == n\<close> for an integer literal \<^verbatim>\<open>n\<close>: \<^verbatim>\<open>True == 1\<close>, \<^verbatim>\<open>False == 0\<close>, \<^verbatim>\<open>1.0 == 1\<close>.\<close>

fun py_eq_int :: "pyval \<Rightarrow> int \<Rightarrow> bool" where
  "py_eq_int (PBool b) n = ((if b then 1 else 0) = n)"
| "py_eq_int (PInt m) n = (m = n)"
| "py_eq_int (PFloat r) n = (r = of_int n)"
| "py_eq_int _ n = False"

text \<open>\<^verbatim>\<open>v < 0\<close>: a \<^verbatim>\<open>TypeError\<close> where \<^verbatim>\<open>v\<close> is not a number.\<close>

fun py_lt_zero :: "pyval \<Rightarrow> exn + bool" where
  "py_lt_zero (PBool b) = Inr False"
| "py_lt_zero (PInt n) = Inr (n < 0)"
| "py_lt_zero (PFloat r) = Inr (r < 0)"
| "py_lt_zero _ = Inl TypeError"

text \<open>
  \<^verbatim>\<open>d[k]\<close> for a string \<^verbatim>\<open>k\<close>: a missing key of a dictionary is a \<^verbatim>\<open>KeyError\<close>; a list, a
  string, a number and \<^verbatim>\<open>None\<close> cannot be indexed by a string (\<^verbatim>\<open>TypeError\<close>).
\<close>

fun py_getitem :: "pyval \<Rightarrow> string \<Rightarrow> exn + pyval" where
  "py_getitem (PDict d) k = (case map_of d k of None \<Rightarrow> Inl KeyError | Some v \<Rightarrow> Inr v)"
| "py_getitem _ k = Inl TypeError"

text \<open>
  \<^verbatim>\<open>k in d\<close> for a string \<^verbatim>\<open>k\<close>: key membership for a dictionary, element membership for
  a list, substring test for a string, \<^verbatim>\<open>TypeError\<close> for a number and \<^verbatim>\<open>None\<close>.
\<close>

fun py_contains :: "pyval \<Rightarrow> string \<Rightarrow> exn + bool" where
  "py_contains (PDict d) k = Inr (map_of d k \<noteq> None)"
| "py_contains (PList xs) k = Inr (PStr k \<in> set xs)"
| "py_contains (PStr s) k = Inr (sublist k s)"
| "py_contains _ k = Inl TypeError"

section \<open>Validators (utils.py)\<close>

text \<open>A validator returns \<^verbatim>\<open>None\<close> (\<open>Inr ()\<close>) or raises (\<open>Inl\<close>).\<close>

fun verify_pair :: "pyval \<Rightarrow> exn + unit" where
  "verify_pair (PList [x, y]) =
     (if \<not> isinstance_int_float x \<or> \<not> isinstance_int_float y then Inl TypeError else Inr ())"
| "verify_pair _ = Inl TypeError"

fun verify_pairs :: "pyval list \<Rightarrow> exn + unit" where
  "verify_pairs [] = Inr ()"
| "verify_pairs (pair # rest) =
     (case verify_pair pair of Inl e \<Rightarrow> Inl e | Inr u \<Rightarrow> verify_pairs rest)"

fun verify_calib_points :: "pyval \<Rightarrow> exn + unit" where
  "verify_calib_points (PList calib_points) = verify_pairs calib_points"
| "verify_calib_points _ = Inl TypeError"

definition check_mass_range :: "pyval \<Rightarrow> exn + unit" where
  "check_mass_range v = (if \<not> list_ex (py_eq_int v) [0, 1, 2] then Inl ValueError else Inr ())"

definition check_mz :: "pyval \<Rightarrow> exn + unit" where
  "check_mz v =
     (if \<not> isinstance_int_float v then Inl ValueError
      else case py_lt_zero v of
             Inl e \<Rightarrow> Inl e
           | Inr neg \<Rightarrow> if neg then Inl ValueError else Inr ())"

definition check_dc_offset :: "pyval \<Rightarrow> exn + unit" where
  "check_dc_offset v = (if \<not> isinstance_int_float v then Inl ValueError else Inr ())"

definition check_dc_on :: "pyval \<Rightarrow> exn + unit" where
  "check_dc_on v = (if \<not> isinstance_bool v then Inl ValueError else Inr ())"

definition check_rod_polarity_positive :: "pyval \<Rightarrow> exn + unit" where
  "check_rod_polarity_positive v = (if \<not> isinstance_bool v then Inl ValueError else Inr ())"

text \<open>\<^verbatim>\<open>try: verify_calib_points(value) except TypeError: raise ValueError\<close>\<close>

definition check_calib_points_mz :: "pyval \<Rightarrow> exn + unit" where
  "check_calib_points_mz v =
     (case verify_calib_points v of
        Inl e \<Rightarrow> if e = TypeError then Inl ValueError else Inl e
      | Inr u \<Rightarrow> Inr ())"

definition check_calib_points_resolution :: "pyval \<Rightarrow> exn + unit" where
  "check_calib_points_resolution v =
     (case verify_calib_points v of
        Inl e \<Rightarrow> if e = TypeError then Inl ValueError else Inl e
      | Inr u \<Rightarrow> Inr ())"

text \<open>
  Modelled from the spec: \<^verbatim>\<open>check_dc_offst\<close>, which the client logic imports from
  \<^verbatim>\<open>utils\<close>. The \<^verbatim>\<open>utils.py\<close> at hand defines this validator under the name
  \<^verbatim>\<open>check_dc_offset\<close>; the spec gives the field the constraint "real number".
\<close>

definition check_dc_offst :: "pyval \<Rightarrow> exn + unit" where
  "check_dc_offst v = check_dc_offset v"

section \<open>The client logic (qsource3\_mqtt\_client\_logic.py)\<close>

text \<open>One constructor for each \<^verbatim>\<open>pyqtSignal\<close> of the class, carrying the emitted argument.\<close>

datatype signal =
    DeviceStatusChanged string
  | MqttStatusChanged string
  | MaxMzChanged pyval
  | FreqChanged pyval
  | RfAmpChanged pyval
  | Dc1Changed pyval
  | Dc2Changed pyval
  | CurrentChanged pyval
  | MassRangeChanged pyval
  | MzChanged pyval
  | DcOffstChanged pyval
  | DcOnChanged pyval
  | RodPolarityPositiveChanged pyval
  | CalibPointsMzChanged pyval
  | CalibPointsResolutionChanged pyval

text \<open>
  The object's state: the \<^verbatim>\<open>settings\<close> dictionary, the two configured names, what
  \<^verbatim>\<open>self.client.is_connected()\<close> answers, and the two traces of its effects: the calls of
  \<^verbatim>\<open>self.client.publish(topic, json.dumps(obj))\<close> as pairs \<open>(topic, obj)\<close>, and the emitted
  signals, both oldest first. \<^verbatim>\<open>publish\<close> and \<^verbatim>\<open>emit\<close> are taken to accept every topic and
  every value. Logging is not part of the state, and the decorator \<^verbatim>\<open>log_func\<close>, which only
  logs the call, is left out.
\<close>

record client_logic =
  settings :: "(string \<times> pyval) list"
  topic_base :: string
  device_name :: string
  is_connected :: bool
  published :: "(string \<times> pyval) list"
  emitted :: "signal list"

text \<open>A method returns \<^verbatim>\<open>None\<close> or raises; either way it leaves a state behind.\<close>

datatype outcome = ReturnsNone | Raises exn

type_synonym action = "client_logic \<Rightarrow> outcome \<times> client_logic"

text \<open>\<^verbatim>\<open>__init__\<close>\<close>

definition init :: "string \<Rightarrow> string \<Rightarrow> client_logic" where
  "init base device =
     \<lparr> settings =
         [(''mass_range'', PInt 0),
          (''mz'', PInt 0),
          (''dc_offst'', PInt 0),
          (''dc_on'', PBool True),
          (''rod_polarity_positive'', PBool True),
          (''calib_points_mz'', PList [PList [PInt 0, PInt 0]]),
          (''calib_points_resolution'', PList [PList [PInt 0, PInt 0]])],
       topic_base = base,
       device_name = device,
       is_connected = False,
       published = [],
       emitted = [] \<rparr>"

text \<open>\<^verbatim>\<open>self.settings[key] = v\<close>, \<^verbatim>\<open>signal.emit(v)\<close> and \<^verbatim>\<open>self.client.publish(topic, json.dumps(obj))\<close>\<close>

definition set_setting :: "string \<Rightarrow> pyval \<Rightarrow> client_logic \<Rightarrow> client_logic" where
  "set_setting key v st = st\<lparr>settings := AList.update key v (settings st)\<rparr>"

definition emit :: "signal \<Rightarrow> client_logic \<Rightarrow> client_logic" where
  "emit sig st = st\<lparr>emitted := emitted st @ [sig]\<rparr>"

definition client_publish :: "string \<Rightarrow> pyval \<Rightarrow> client_logic \<Rightarrow> client_logic" where
  "client_publish topic obj st = st\<lparr>published := published st @ [(topic, obj)]\<rparr>"

definition cmnd_topic :: "client_logic \<Rightarrow> string \<Rightarrow> string" where
  "cmnd_topic st code = topic_base st @ ''/cmnd/'' @ device_name st @ ''/'' @ code"

text \<open>The decorator \<^verbatim>\<open>client_connected\<close>: when the client is not connected, warn and return.\<close>

definition client_connected :: "action \<Rightarrow> action" where
  "client_connected func st = (if \<not> is_connected st then (ReturnsNone, st) else func st)"

text \<open>Statements in sequence: the first exception ends the run, keeping the state reached.\<close>

fun run_all :: "action list \<Rightarrow> action" where
  "run_all [] st = (ReturnsNone, st)"
| "run_all (f # fs) st =
     (case f st of (ReturnsNone, st') \<Rightarrow> run_all fs st' | (Raises e, st') \<Rightarrow> (Raises e, st'))"

text \<open>\<^verbatim>\<open>try: ... except ValueError as e: logger.debug(e)\<close>\<close>

definition except_ValueError :: "outcome \<times> client_logic \<Rightarrow> outcome \<times> client_logic" where
  "except_ValueError r =
     (case r of
        (ReturnsNone, st) \<Rightarrow> (ReturnsNone, st)
      | (Raises e, st) \<Rightarrow> if is_ValueError e then (ReturnsNone, st) else (Raises e, st))"

subsection \<open>Publish functions\<close>

text \<open>
  The common body of the seven publish functions:
  \<^verbatim>\<open>check(v); self.settings[key] = v; self.client.publish(f"{base}/cmnd/{device}/{code}", json.dumps({"value": v}))\<close>
\<close>

definition publish_body :: "(pyval \<Rightarrow> exn + unit) \<Rightarrow> string \<Rightarrow> string \<Rightarrow> pyval \<Rightarrow> action" where
  "publish_body check key code v st =
     (case check v of
        Inl e \<Rightarrow> (Raises e, st)
      | Inr u \<Rightarrow>
          (ReturnsNone,
           client_publish (cmnd_topic st code) (PDict [(''value'', v)]) (set_setting key v st)))"

definition publish_mass_range :: "pyval \<Rightarrow> action" where
  "publish_mass_range range_value =
     client_connected (publish_body check_mass_range ''mass_range'' ''range'' range_value)"

definition publish_mz :: "pyval \<Rightarrow> action" where
  "publish_mz mz = client_connected (publish_body check_mz ''mz'' ''mz'' mz)"

definition publish_dc_offst :: "pyval \<Rightarrow> action" where
  "publish_dc_offst dc_offst =
     client_connected (publish_body check_dc_offst ''dc_offst'' ''dc_offst'' dc_offst)"

definition publish_dc_on :: "pyval \<Rightarrow> action" where
  "publish_dc_on dc_on = client_connected (publish_body check_dc_on ''dc_on'' ''is_dc_on'' dc_on)"

definition publish_rod_polarity_positive :: "pyval \<Rightarrow> action" where
  "publish_rod_polarity_positive rod_polarity_positive =
     client_connected
       (publish_body check_rod_polarity_positive ''rod_polarity_positive''
          ''is_rod_polarity_positive'' rod_polarity_positive)"

definition publish_calib_points_mz :: "pyval \<Rightarrow> action" where
  "publish_calib_points_mz calib_points_mz =
     client_connected
       (publish_body verify_calib_points ''calib_points_mz'' ''calib_pnts_rf'' calib_points_mz)"

definition publish_calib_points_resolution :: "pyval \<Rightarrow> action" where
  "publish_calib_points_resolution calib_points_resolution =
     client_connected
       (publish_body verify_calib_points ''calib_points_resolution'' ''calib_pnts_dc''
          calib_points_resolution)"

subsection \<open>Request functions\<close>

text \<open>\<^verbatim>\<open>self.client.publish(f"{base}/cmnd/{device}/{code}", json.dumps({}))\<close>\<close>

definition request_body :: "string \<Rightarrow> action" where
  "request_body code st = (ReturnsNone, client_publish (cmnd_topic st code) (PDict []) st)"

definition request_device_state :: "action" where
  "request_device_state = client_connected (request_body ''state'')"

definition request_dc_offst :: "action" where
  "request_dc_offst = client_connected (request_body ''dc_offst'')"

definition request_calib_points_mz :: "action" where
  "request_calib_points_mz = client_connected (request_body ''calib_pnts_rf'')"

definition request_calib_points_resolution :: "action" where
  "request_calib_points_resolution = client_connected (request_body ''calib_pnts_dc'')"

subsection \<open>Handlers\<close>

definition handle_device_connected :: "action" where
  "handle_device_connected =
     run_all
       [\<lambda>st. (ReturnsNone, emit (DeviceStatusChanged ''connected'') st),
        request_device_state,
        request_dc_offst,
        request_calib_points_mz,
        request_calib_points_resolution]"

definition handle_device_error :: "action" where
  "handle_device_error st = (ReturnsNone, emit (DeviceStatusChanged ''IO error'') st)"

text \<open>
  The guarded block of the field handlers and of the \<^verbatim>\<open>range\<close> entry of a state report:
  \<^verbatim>\<open>try: check(payload[k]); self.settings[key] = payload[k]; signal.emit(payload[k])
  except ValueError as e: logger.debug(e)\<close>
\<close>

definition try_store :: "(pyval \<Rightarrow> exn + unit) \<Rightarrow> string \<Rightarrow> (pyval \<Rightarrow> signal) \<Rightarrow> string \<Rightarrow> pyval \<Rightarrow> action" where
  "try_store check key sig k payload st =
     except_ValueError
       (case py_getitem payload k of
          Inl e \<Rightarrow> (Raises e, st)
        | Inr v \<Rightarrow>
            (case check v of
               Inl e \<Rightarrow> (Raises e, st)
             | Inr u \<Rightarrow> (ReturnsNone, emit (sig v) (set_setting key v st))))"

text \<open>\<^verbatim>\<open>signal.emit(payload[k])\<close>\<close>

definition forward :: "(pyval \<Rightarrow> signal) \<Rightarrow> string \<Rightarrow> pyval \<Rightarrow> action" where
  "forward sig k payload st =
     (case py_getitem payload k of
        Inl e \<Rightarrow> (Raises e, st)
      | Inr v \<Rightarrow> (ReturnsNone, emit (sig v) st))"

text \<open>\<^verbatim>\<open>if k in payload: body\<close>\<close>

definition if_in :: "string \<Rightarrow> pyval \<Rightarrow> action \<Rightarrow> action" where
  "if_in k payload body st =
     (case py_contains payload k of
        Inl e \<Rightarrow> (Raises e, st)
      | Inr present \<Rightarrow> if present then body st else (ReturnsNone, st))"

definition handle_device_state :: "pyval \<Rightarrow> action" where
  "handle_device_state payload =
     run_all
       [if_in ''range'' payload
          (try_store check_mass_range ''mass_range'' MassRangeChanged ''range'' payload),
        if_in ''frequency'' payload (forward FreqChanged ''frequency'' payload),
        if_in ''rf_amp'' payload (forward RfAmpChanged ''rf_amp'' payload),
        if_in ''dc1'' payload (forward Dc1Changed ''dc1'' payload),
        if_in ''dc2'' payload (forward Dc2Changed ''dc2'' payload),
        if_in ''current'' payload (forward CurrentChanged ''current'' payload),
        if_in ''mz'' payload (forward MzChanged ''mz'' payload),
        if_in ''dc_offst'' payload (forward DcOffstChanged ''dc_offst'' payload),
        if_in ''is_dc_on'' payload (forward DcOnChanged ''is_dc_on'' payload),
        if_in ''is_rod_polarity_positive'' payload
          (forward RodPolarityPositiveChanged ''is_rod_polarity_positive'' payload),
        if_in ''max_mz'' payload (forward MaxMzChanged ''max_mz'' payload)]"

definition handle_range :: "pyval \<Rightarrow> action" where
  "handle_range payload = try_store check_mass_range ''mass_range'' MassRangeChanged ''value'' payload"

definition handle_mz :: "pyval \<Rightarrow> action" where
  "handle_mz payload = try_store check_mz ''mz'' MzChanged ''value'' payload"

definition handle_dc_offst :: "pyval \<Rightarrow> action" where
  "handle_dc_offst payload = try_store check_dc_offst ''dc_offst'' DcOffstChanged ''value'' payload"

definition handle_dc_on :: "pyval \<Rightarrow> action" where
  "handle_dc_on payload = try_store check_dc_on ''dc_on'' DcOnChanged ''value'' payload"

definition handle_rod_polarity_positive :: "pyval \<Rightarrow> action" where
  "handle_rod_polarity_positive payload =
     try_store check_rod_polarity_positive ''rod_polarity_positive'' RodPolarityPositiveChanged
       ''value'' payload"

definition handle_calib_points_mz :: "pyval \<Rightarrow> action" where
  "handle_calib_points_mz payload =
     try_store verify_calib_points ''calib_points_mz'' CalibPointsMzChanged ''value'' payload"

definition handle_calib_points_resolution :: "pyval \<Rightarrow> action" where
  "handle_calib_points_resolution payload =
     try_store verify_calib_points ''calib_points_resolution'' CalibPointsResolutionChanged
       ''value'' payload"

definition handle_max_mz :: "pyval \<Rightarrow> action" where
  "handle_max_mz payload = forward MaxMzChanged ''value'' payload"

subsection \<open>The inbound router\<close>

text \<open>
  What \<^verbatim>\<open>json.loads(message.payload.decode())\<close> makes of the payload bytes: the bytes are
  not UTF-8 (\<^verbatim>\<open>decode\<close> raises \<^verbatim>\<open>UnicodeDecodeError\<close>), the text is not JSON (\<^verbatim>\<open>loads\<close> raises
  \<^verbatim>\<open>JSONDecodeError\<close>), or the text is JSON for a value.
\<close>

datatype payload_bytes = NotUtf8 | NotJson | Json pyval

text \<open>
  \<^verbatim>\<open>try: payload = json.loads(message.payload.decode())
  except json.JSONDecodeError: payload = {}\<close>
\<close>

definition decode_payload :: "payload_bytes \<Rightarrow> exn + pyval" where
  "decode_payload b =
     (case b of
        NotUtf8 \<Rightarrow> Inl UnicodeDecodeError
      | NotJson \<Rightarrow> Inr (PDict [])
      | Json v \<Rightarrow> Inr v)"

definition dispatch :: "string \<Rightarrow> pyval \<Rightarrow> action" where
  "dispatch topic payload =
     (if sublist ''/connected/'' topic then handle_device_connected
      else if sublist ''/error/'' topic then handle_device_error
      else if suffix ''state'' topic then handle_device_state payload
      else if suffix ''range'' topic then handle_range payload
      else if suffix ''mz'' topic then handle_mz payload
      else if suffix ''dc_offst'' topic then handle_dc_offst payload
      else if suffix ''dc_on'' topic then handle_dc_on payload
      else if suffix ''rod_polarity_positive'' topic then handle_rod_polarity_positive payload
      else if suffix ''calib_points_mz'' topic then handle_calib_points_mz payload
      else if suffix ''calib_points_resolution'' topic then handle_calib_points_resolution payload
      else if suffix ''max_mz'' topic then handle_max_mz payload
      else (\<lambda>st. (ReturnsNone, st)))"

definition on_message :: "string \<Rightarrow> payload_bytes \<Rightarrow> action" where
  "on_message topic b st =
     (case decode_payload b of
        Inl e \<Rightarrow> (Raises e, st)
      | Inr payload \<Rightarrow> dispatch topic payload st)"

subsection \<open>Settings files\<close>

text \<open>
  What \<^verbatim>\<open>open\<close> and \<^verbatim>\<open>json.load\<close> make of a file: it cannot be opened, it is not JSON, or it
  is the JSON text of a value. \<^verbatim>\<open>json.dump\<close> followed by \<^verbatim>\<open>json.load\<close> is taken to give
  back the value written, for the values of this model.
\<close>

datatype settings_file = Unreadable | NotJsonFile | JsonFile pyval

text \<open>\<^verbatim>\<open>check(settings[key])\<close>\<close>

definition check_item :: "(pyval \<Rightarrow> exn + unit) \<Rightarrow> pyval \<Rightarrow> string \<Rightarrow> exn + unit" where
  "check_item check loaded key =
     (case py_getitem loaded key of Inl e \<Rightarrow> Inl e | Inr v \<Rightarrow> check v)"

fun first_error :: "(exn + unit) list \<Rightarrow> exn + unit" where
  "first_error [] = Inr ()"
| "first_error (c # cs) = (case c of Inl e \<Rightarrow> Inl e | Inr u \<Rightarrow> first_error cs)"

text \<open>The seven checks of \<^verbatim>\<open>load_settings\<close>, in the order of the source.\<close>

definition verify_settings :: "pyval \<Rightarrow> exn + unit" where
  "verify_settings loaded =
     first_error
       [check_item check_mass_range loaded ''mass_range'',
        check_item check_mz loaded ''mz'',
        check_item check_dc_offst loaded ''dc_offst'',
        check_item check_dc_on loaded ''dc_on'',
        check_item check_rod_polarity_positive loaded ''rod_polarity_positive'',
        check_item check_calib_points_mz loaded ''calib_points_mz'',
        check_item check_calib_points_resolution loaded ''calib_points_resolution'']"

text \<open>\<^verbatim>\<open>self.publish_x(settings[key])\<close>\<close>

definition publish_item :: "(pyval \<Rightarrow> action) \<Rightarrow> pyval \<Rightarrow> string \<Rightarrow> action" where
  "publish_item publish loaded key st =
     (case py_getitem loaded key of Inl e \<Rightarrow> (Raises e, st) | Inr v \<Rightarrow> publish v st)"

text \<open>
  \<^verbatim>\<open>load_settings\<close>. Once the checks have passed the loaded value is a dictionary (indexing
  anything else by a string raises), and \<^verbatim>\<open>self.settings = settings\<close> installs it.
\<close>

definition load_settings :: "settings_file \<Rightarrow> action" where
  "load_settings f st =
     (case f of
        Unreadable \<Rightarrow> (Raises OSError, st)
      | NotJsonFile \<Rightarrow> (Raises JSONDecodeError, st)
      | JsonFile loaded \<Rightarrow>
          (case verify_settings loaded of
             Inl e \<Rightarrow> (Raises e, st)
           | Inr u \<Rightarrow>
               (case loaded of
                  PDict d \<Rightarrow>
                    run_all
                      [publish_item publish_mass_range loaded ''mass_range'',
                       publish_item publish_mz loaded ''mz'',
                       publish_item publish_dc_offst loaded ''dc_offst'',
                       publish_item publish_dc_on loaded ''dc_on'',
                       publish_item publish_rod_polarity_positive loaded ''rod_polarity_positive'',
                       publish_item publish_calib_points_mz loaded ''calib_points_mz'',
                       publish_item publish_calib_points_resolution loaded
                         ''calib_points_resolution'']
                      (st\<lparr>settings := d\<rparr>)
                | _ \<Rightarrow> (Raises TypeError, st))))"

text \<open>\<^verbatim>\<open>save_settings\<close>: the file written by \<^verbatim>\<open>json.dump(self.settings, f)\<close>.\<close>

definition save_settings :: "client_logic \<Rightarrow> settings_file" where
  "save_settings st = JsonFile (PDict (settings st))"

section \<open>Fields, validity of a snapshot, the resync sequence\<close>

text \<open>
  The seven settings fields, each with its key in the \<^verbatim>\<open>settings\<close> dictionary, its field
  code in the command topic, the validator its publish function calls, and its publish
  function. \<open>publish_field\<close> is the spec's \<^verbatim>\<open>CommandPublisher.request(field, value)\<close>.
\<close>

datatype field =
  MassRange | Mz | DcOffst | DcOn | RodPolarityPositive | CalibPointsMz | CalibPointsResolution

fun settings_key :: "field \<Rightarrow> string" where
  "settings_key MassRange = ''mass_range''"
| "settings_key Mz = ''mz''"
| "settings_key DcOffst = ''dc_offst''"
| "settings_key DcOn = ''dc_on''"
| "settings_key RodPolarityPositive = ''rod_polarity_positive''"
| "settings_key CalibPointsMz = ''calib_points_mz''"
| "settings_key CalibPointsResolution = ''calib_points_resolution''"

fun field_code :: "field \<Rightarrow> string" where
  "field_code MassRange = ''range''"
| "field_code Mz = ''mz''"
| "field_code DcOffst = ''dc_offst''"
| "field_code DcOn = ''is_dc_on''"
| "field_code RodPolarityPositive = ''is_rod_polarity_positive''"
| "field_code CalibPointsMz = ''calib_pnts_rf''"
| "field_code CalibPointsResolution = ''calib_pnts_dc''"

fun validator :: "field \<Rightarrow> pyval \<Rightarrow> exn + unit" where
  "validator MassRange = check_mass_range"
| "validator Mz = check_mz"
| "validator DcOffst = check_dc_offst"
| "validator DcOn = check_dc_on"
| "validator RodPolarityPositive = check_rod_polarity_positive"
| "validator CalibPointsMz = verify_calib_points"
| "validator CalibPointsResolution = verify_calib_points"

fun publish_field :: "field \<Rightarrow> pyval \<Rightarrow> action" where
  "publish_field MassRange = publish_mass_range"
| "publish_field Mz = publish_mz"
| "publish_field DcOffst = publish_dc_offst"
| "publish_field DcOn = publish_dc_on"
| "publish_field RodPolarityPositive = publish_rod_polarity_positive"
| "publish_field CalibPointsMz = publish_calib_points_mz"
| "publish_field CalibPointsResolution = publish_calib_points_resolution"

definition all_fields :: "field list" where
  "all_fields =
     [MassRange, Mz, DcOffst, DcOn, RodPolarityPositive, CalibPointsMz, CalibPointsResolution]"

text \<open>A snapshot is valid when each of the seven keys is present and passes its validator.\<close>

definition field_valid :: "(string \<times> pyval) list \<Rightarrow> field \<Rightarrow> bool" where
  "field_valid d F =
     (case map_of d (settings_key F) of None \<Rightarrow> False | Some v \<Rightarrow> validator F v = Inr ())"

definition snapshot_valid :: "(string \<times> pyval) list \<Rightarrow> bool" where
  "snapshot_valid d = list_all (field_valid d) all_fields"

definition has_all_keys :: "(string \<times> pyval) list \<Rightarrow> bool" where
  "has_all_keys d = list_all (\<lambda>F. map_of d (settings_key F) \<noteq> None) all_fields"

text \<open>
  The resync sequence in the spec's words: a full-state request, then the pulls of
  \<^verbatim>\<open>dc_offst\<close>, \<^verbatim>\<open>calib_points_mz\<close> and \<^verbatim>\<open>calib_points_resolution\<close>, each an empty record on
  the field's command topic.
\<close>

definition resync_requests :: "client_logic \<Rightarrow> (string \<times> pyval) list" where
  "resync_requests st =
     [(topic_base st @ ''/cmnd/'' @ device_name st @ ''/state'', PDict []),
      (topic_base st @ ''/cmnd/'' @ device_name st @ ''/dc_offst'', PDict []),
      (topic_base st @ ''/cmnd/'' @ device_name st @ ''/calib_pnts_rf'', PDict []),
      (topic_base st @ ''/cmnd/'' @ device_name st @ ''/calib_pnts_dc'', PDict [])]"




text \<open>
  The states the object can be in: as constructed, after the transport connects or drops,
  after an inbound message, after a publish request, after a load.
\<close>

inductive reachable :: "client_logic \<Rightarrow> bool" where
  constructed: "reachable (init base device)"
| connection: "reachable st \<Longrightarrow> reachable (st\<lparr>is_connected := c\<rparr>)"
| message: "reachable st \<Longrightarrow> reachable (snd (on_message topic b st))"
| publish: "reachable st \<Longrightarrow> reachable (snd (publish_field F v st))"
| load: "reachable st \<Longrightarrow> reachable (snd (load_settings f st))"

text \<open>Proof vocabulary: an action that returns and leaves the settings \<open>d\<close> as they are.\<close>

definition keeps_settings :: "(string \<times> pyval) list \<Rightarrow> action \<Rightarrow> bool" where
  "keeps_settings d f \<longleftrightarrow>
     (\<forall>s. settings s = d \<longrightarrow> fst (f s) = ReturnsNone \<and> settings (snd (f s)) = d)"

text \<open>Proof vocabulary: a check that returns or raises \<^verbatim>\<open>ValueError\<close>, nothing else.\<close>

definition value_error_only :: "exn + unit \<Rightarrow> bool" where
  "value_error_only c \<longleftrightarrow> c = Inr () \<or> c = Inl ValueError"

text \<open>Proof vocabulary: an action that leaves valid settings valid.\<close>

definition keeps_valid :: "action \<Rightarrow> bool" where
  "keeps_valid f \<longleftrightarrow>
     (\<forall>st. snapshot_valid (settings st) \<longrightarrow> snapshot_valid (settings (snd (f st))))"

section \<open>Helper lemmas\<close>

lemma publish_field_eq:
  "publish_field F v = client_connected (publish_body (validator F) (settings_key F) (field_code F) v)"
  by (cases F) (simp_all add: publish_mass_range_def publish_mz_def publish_dc_offst_def
      publish_dc_on_def publish_rod_polarity_positive_def publish_calib_points_mz_def
      publish_calib_points_resolution_def)

lemma check_calib_points_mz_ok:
  "check_calib_points_mz v = Inr () \<longleftrightarrow> verify_calib_points v = Inr ()"
  by (simp add: check_calib_points_mz_def split: sum.splits)

lemma check_calib_points_resolution_ok:
  "check_calib_points_resolution v = Inr () \<longleftrightarrow> verify_calib_points v = Inr ()"
  by (simp add: check_calib_points_resolution_def split: sum.splits)

lemma check_item_ok:
  "check_item check (PDict d) key = Inr () \<longleftrightarrow> (\<exists>v. map_of d key = Some v \<and> check v = Inr ())"
  by (simp add: check_item_def split: option.splits)

lemma check_item_present: "map_of d key = Some v \<Longrightarrow> check_item check (PDict d) key = check v"
  by (simp add: check_item_def)

lemma field_valid_iff:
  "field_valid d F \<longleftrightarrow> (\<exists>v. map_of d (settings_key F) = Some v \<and> validator F v = Inr ())"
  by (simp add: field_valid_def split: option.splits)

lemma first_error_ok: "first_error cs = Inr () \<longleftrightarrow> list_all (\<lambda>c. c = Inr ()) cs"
  by (induction cs) (auto split: sum.splits)

text \<open>The seven checks of \<^verbatim>\<open>load_settings\<close> pass exactly on the valid snapshots.\<close>

lemma verify_settings_ok: "verify_settings (PDict d) = Inr () \<longleftrightarrow> snapshot_valid d"
  unfolding verify_settings_def first_error_ok snapshot_valid_def all_fields_def
  by (simp add: check_item_ok field_valid_iff check_calib_points_mz_ok
      check_calib_points_resolution_ok)

lemma verify_settings_dict: "verify_settings loaded = Inr () \<Longrightarrow> \<exists>d. loaded = PDict d"
  by (cases loaded) (simp_all add: verify_settings_def check_item_def)

lemma run_all_keeps_settings:
  "list_all (keeps_settings d) fs \<Longrightarrow> keeps_settings d (run_all fs)"
proof (induction fs)
  case Nil
  then show ?case by (simp add: keeps_settings_def)
next
  case (Cons f fs)
  then have f: "keeps_settings d f" and fs: "keeps_settings d (run_all fs)"
    by simp_all
  show ?case
    unfolding keeps_settings_def
  proof (intro allI impI)
    fix s :: client_logic
    assume s: "settings s = d"
    obtain s' where s': "f s = (ReturnsNone, s')" and d': "settings s' = d"
      using f s unfolding keeps_settings_def by (cases "f s") auto
    show "fst (run_all (f # fs) s) = ReturnsNone \<and> settings (snd (run_all (f # fs) s)) = d"
      using fs d' unfolding keeps_settings_def by (simp add: s')
  qed
qed

text \<open>
  Publishing back a value the settings already hold, and which is valid, returns and
  leaves the settings as they are, connected or not.
\<close>

lemma publish_item_keeps_settings:
  assumes "field_valid d F"
  shows "keeps_settings d (publish_item (publish_field F) (PDict d) (settings_key F))"
proof -
  obtain v where v: "map_of d (settings_key F) = Some v" and ok: "validator F v = Inr ()"
    using assms by (auto simp: field_valid_iff)
  have "AList.update (settings_key F) v d = d"
    using v by (rule update_triv)
  then show ?thesis
    using v ok
    by (simp add: keeps_settings_def publish_item_def publish_field_eq
        client_connected_def publish_body_def client_publish_def set_setting_def)
qed

lemma load_settings_valid:
  assumes "snapshot_valid d"
  shows "fst (load_settings (JsonFile (PDict d)) st) = ReturnsNone
         \<and> settings (snd (load_settings (JsonFile (PDict d)) st)) = d"
proof -
  have "list_all (\<lambda>F. keeps_settings d (publish_item (publish_field F) (PDict d) (settings_key F)))
          all_fields"
    using assms unfolding snapshot_valid_def list_all_iff
    by (auto intro: publish_item_keeps_settings)
  then have "keeps_settings d (run_all
          [publish_item publish_mass_range (PDict d) ''mass_range'',
           publish_item publish_mz (PDict d) ''mz'',
           publish_item publish_dc_offst (PDict d) ''dc_offst'',
           publish_item publish_dc_on (PDict d) ''dc_on'',
           publish_item publish_rod_polarity_positive (PDict d) ''rod_polarity_positive'',
           publish_item publish_calib_points_mz (PDict d) ''calib_points_mz'',
           publish_item publish_calib_points_resolution (PDict d) ''calib_points_resolution''])"
    by (intro run_all_keeps_settings) (simp add: all_fields_def)
  then have run: "fst (run_all
          [publish_item publish_mass_range (PDict d) ''mass_range'',
           publish_item publish_mz (PDict d) ''mz'',
           publish_item publish_dc_offst (PDict d) ''dc_offst'',
           publish_item publish_dc_on (PDict d) ''dc_on'',
           publish_item publish_rod_polarity_positive (PDict d) ''rod_polarity_positive'',
           publish_item publish_calib_points_mz (PDict d) ''calib_points_mz'',
           publish_item publish_calib_points_resolution (PDict d) ''calib_points_resolution'']
          (st\<lparr>settings := d\<rparr>)) = ReturnsNone
      \<and> settings (snd (run_all
          [publish_item publish_mass_range (PDict d) ''mass_range'',
           publish_item publish_mz (PDict d) ''mz'',
           publish_item publish_dc_offst (PDict d) ''dc_offst'',
           publish_item publish_dc_on (PDict d) ''dc_on'',
           publish_item publish_rod_polarity_positive (PDict d) ''rod_polarity_positive'',
           publish_item publish_calib_points_mz (PDict d) ''calib_points_mz'',
           publish_item publish_calib_points_resolution (PDict d) ''calib_points_resolution'']
          (st\<lparr>settings := d\<rparr>))) = d"
    unfolding keeps_settings_def by simp
  have ok: "verify_settings (PDict d) = Inr ()"
    using assms by (simp add: verify_settings_ok)
  show ?thesis
    using run by (simp add: load_settings_def ok del: run_all.simps)
qed

lemma load_settings_raises:
  assumes "verify_settings loaded = Inl e"
  shows "load_settings (JsonFile loaded) st = (Raises e, st)"
  using assms by (simp add: load_settings_def)

lemma verify_pairs_TypeError: "verify_pairs ps = Inr () \<or> verify_pairs ps = Inl TypeError"
proof (induction ps)
  case Nil
  then show ?case by simp
next
  case (Cons p ps)
  have "verify_pair p = Inr () \<or> verify_pair p = Inl TypeError"
    by (cases p rule: verify_pair.cases) simp_all
  with Cons show ?case by auto
qed

lemma verify_calib_points_TypeError:
  "verify_calib_points v = Inr () \<or> verify_calib_points v = Inl TypeError"
  by (cases v) (simp_all add: verify_pairs_TypeError)

lemma checks_value_error_only:
  "value_error_only (check_mass_range v)"
  "value_error_only (check_mz v)"
  "value_error_only (check_dc_offst v)"
  "value_error_only (check_dc_on v)"
  "value_error_only (check_rod_polarity_positive v)"
  "value_error_only (check_calib_points_mz v)"
  "value_error_only (check_calib_points_resolution v)"
proof -
  show "value_error_only (check_mass_range v)"
    by (simp add: value_error_only_def check_mass_range_def)
  show "value_error_only (check_mz v)"
    by (cases v) (simp_all add: value_error_only_def check_mz_def)
  show "value_error_only (check_dc_offst v)"
    by (simp add: value_error_only_def check_dc_offst_def check_dc_offset_def)
  show "value_error_only (check_dc_on v)"
    by (simp add: value_error_only_def check_dc_on_def)
  show "value_error_only (check_rod_polarity_positive v)"
    by (simp add: value_error_only_def check_rod_polarity_positive_def)
  show "value_error_only (check_calib_points_mz v)"
    using verify_calib_points_TypeError [of v]
    by (auto simp: value_error_only_def check_calib_points_mz_def)
  show "value_error_only (check_calib_points_resolution v)"
    using verify_calib_points_TypeError [of v]
    by (auto simp: value_error_only_def check_calib_points_resolution_def)
qed

lemma first_error_value_error_only:
  "list_all value_error_only cs \<Longrightarrow> value_error_only (first_error cs)"
  by (induction cs) (auto simp: value_error_only_def)

lemma verify_settings_value_error_only:
  assumes "has_all_keys d"
  shows "value_error_only (verify_settings (PDict d))"
proof -
  obtain v1 v2 v3 v4 v5 v6 v7 where
    "map_of d ''mass_range'' = Some v1" "map_of d ''mz'' = Some v2"
    "map_of d ''dc_offst'' = Some v3" "map_of d ''dc_on'' = Some v4"
    "map_of d ''rod_polarity_positive'' = Some v5" "map_of d ''calib_points_mz'' = Some v6"
    "map_of d ''calib_points_resolution'' = Some v7"
    using assms by (auto simp: has_all_keys_def all_fields_def)
  then show ?thesis
    unfolding verify_settings_def
    by (intro first_error_value_error_only) (simp add: check_item_present checks_value_error_only)
qed

lemma init_valid: "snapshot_valid (settings (init base device))"
  by (simp add: snapshot_valid_def all_fields_def field_valid_def init_def check_mass_range_def
      check_mz_def check_dc_offst_def check_dc_offset_def check_dc_on_def
      check_rod_polarity_positive_def)










lemma update_valid:
  assumes "validator F v = Inr ()" and "snapshot_valid d"
  shows "snapshot_valid (AList.update (settings_key F) v d)"
  using assms
  by (cases F) (simp_all add: snapshot_valid_def all_fields_def field_valid_iff update_conv')

lemma keeps_valid_skip: "keeps_valid (\<lambda>st. (ReturnsNone, st))"
  by (simp add: keeps_valid_def)

lemma keeps_valid_try_store:
  "keeps_valid (try_store (validator F) (settings_key F) sig k payload)"
  unfolding keeps_valid_def
proof (intro allI impI)
  fix st :: client_logic
  assume v: "snapshot_valid (settings st)"
  show "snapshot_valid (settings (snd (try_store (validator F) (settings_key F) sig k payload st)))"
  proof (cases "py_getitem payload k")
    case (Inl e)
    then show ?thesis using v by (simp add: try_store_def except_ValueError_def)
  next
    case (Inr x)
    show ?thesis
    proof (cases "validator F x")
      case (Inl e)
      then show ?thesis using v Inr by (simp add: try_store_def except_ValueError_def)
    next
      case ok: (Inr u)
      then show ?thesis
        using v Inr update_valid [of F x "settings st"]
        by (simp add: try_store_def except_ValueError_def emit_def set_setting_def)
    qed
  qed
qed

lemma keeps_valid_forward: "keeps_valid (forward sig k payload)"
  by (simp add: keeps_valid_def forward_def emit_def split: sum.splits)

lemma keeps_valid_if_in: "keeps_valid body \<Longrightarrow> keeps_valid (if_in k payload body)"
  by (simp add: keeps_valid_def if_in_def split: sum.splits)

lemma keeps_valid_run_all: "list_all keeps_valid fs \<Longrightarrow> keeps_valid (run_all fs)"
proof (induction fs)
  case Nil
  then show ?case by (simp add: keeps_valid_def)
next
  case (Cons f fs)
  then have f: "keeps_valid f" and fs: "keeps_valid (run_all fs)"
    by simp_all
  show ?case
    unfolding keeps_valid_def
  proof (intro allI impI)
    fix st :: client_logic
    assume v: "snapshot_valid (settings st)"
    obtain r st' where r: "f st = (r, st')"
      by (cases "f st")
    then have v': "snapshot_valid (settings st')"
      using f v unfolding keeps_valid_def by (metis snd_conv)
    show "snapshot_valid (settings (snd (run_all (f # fs) st)))"
      using fs v' unfolding keeps_valid_def by (cases r) (simp_all add: r)
  qed
qed

lemma keeps_valid_client_connected: "keeps_valid f \<Longrightarrow> keeps_valid (client_connected f)"
  by (simp add: keeps_valid_def client_connected_def)

lemma keeps_valid_request: "keeps_valid (request_body code)"
  by (simp add: keeps_valid_def request_body_def client_publish_def)

lemma keeps_valid_publish_field: "keeps_valid (publish_field F v)"
  unfolding publish_field_eq
proof (rule keeps_valid_client_connected)
  show "keeps_valid (publish_body (validator F) (settings_key F) (field_code F) v)"
    using update_valid [of F v]
    by (cases "validator F v")
      (simp_all add: keeps_valid_def publish_body_def client_publish_def set_setting_def)
qed

lemma keeps_valid_handlers:
  "keeps_valid handle_device_connected"
  "keeps_valid handle_device_error"
  "keeps_valid (handle_device_state payload)"
  "keeps_valid (handle_range payload)"
  "keeps_valid (handle_mz payload)"
  "keeps_valid (handle_dc_offst payload)"
  "keeps_valid (handle_dc_on payload)"
  "keeps_valid (handle_rod_polarity_positive payload)"
  "keeps_valid (handle_calib_points_mz payload)"
  "keeps_valid (handle_calib_points_resolution payload)"
  "keeps_valid (handle_max_mz payload)"
proof -
  show "keeps_valid handle_device_connected"
    unfolding handle_device_connected_def
    by (intro keeps_valid_run_all)
      (simp add: request_device_state_def request_dc_offst_def request_calib_points_mz_def
        request_calib_points_resolution_def keeps_valid_client_connected keeps_valid_request,
       simp add: keeps_valid_def emit_def)
  show "keeps_valid handle_device_error"
    by (simp add: keeps_valid_def handle_device_error_def emit_def)
  show "keeps_valid (handle_device_state payload)"
    unfolding handle_device_state_def
    using keeps_valid_try_store [of MassRange]
    by (intro keeps_valid_run_all) (simp add: keeps_valid_if_in keeps_valid_forward)
  show "keeps_valid (handle_range payload)"
    using keeps_valid_try_store [of MassRange] by (simp add: handle_range_def)
  show "keeps_valid (handle_mz payload)"
    using keeps_valid_try_store [of Mz] by (simp add: handle_mz_def)
  show "keeps_valid (handle_dc_offst payload)"
    using keeps_valid_try_store [of DcOffst] by (simp add: handle_dc_offst_def)
  show "keeps_valid (handle_dc_on payload)"
    using keeps_valid_try_store [of DcOn] by (simp add: handle_dc_on_def)
  show "keeps_valid (handle_rod_polarity_positive payload)"
    using keeps_valid_try_store [of RodPolarityPositive]
    by (simp add: handle_rod_polarity_positive_def)
  show "keeps_valid (handle_calib_points_mz payload)"
    using keeps_valid_try_store [of CalibPointsMz] by (simp add: handle_calib_points_mz_def)
  show "keeps_valid (handle_calib_points_resolution payload)"
    using keeps_valid_try_store [of CalibPointsResolution]
    by (simp add: handle_calib_points_resolution_def)
  show "keeps_valid (handle_max_mz payload)"
    by (simp add: handle_max_mz_def keeps_valid_forward)
qed

lemma keeps_valid_on_message: "keeps_valid (on_message topic b)"
proof -
  have "keeps_valid (dispatch topic payload)" for payload
    by (simp add: dispatch_def keeps_valid_handlers keeps_valid_skip)
  then show ?thesis
    by (simp add: keeps_valid_def on_message_def split: sum.splits)
qed

lemma keeps_valid_load_settings: "keeps_valid (load_settings f)"
  unfolding keeps_valid_def
proof (intro allI impI)
  fix st :: client_logic
  assume v: "snapshot_valid (settings st)"
  show "snapshot_valid (settings (snd (load_settings f st)))"
  proof (cases f)
    case Unreadable
    then show ?thesis using v by (simp add: load_settings_def)
  next
    case NotJsonFile
    then show ?thesis using v by (simp add: load_settings_def)
  next
    case (JsonFile loaded)
    show ?thesis
    proof (cases "verify_settings loaded")
      case (Inl e)
      then show ?thesis using v by (simp add: JsonFile load_settings_raises)
    next
      case (Inr u)
      then obtain d where d: "loaded = PDict d"
        using verify_settings_dict by auto
      then have "snapshot_valid d"
        using Inr verify_settings_ok by simp
      then show ?thesis
        using load_settings_valid [of d st] by (simp add: JsonFile d)
    qed
  qed
qed

text \<open>In every reachable state the settings are a valid snapshot.\<close>

lemma reachable_valid: "reachable st \<Longrightarrow> snapshot_valid (settings st)"
proof (induction rule: reachable.induct)
  case (constructed base device)
  show ?case by (rule init_valid)
next
  case (connection st c)
  then show ?case by simp
next
  case (message st topic b)
  then show ?case using keeps_valid_on_message by (simp add: keeps_valid_def)
next
  case (publish st F v)
  then show ?case using keeps_valid_publish_field by (simp add: keeps_valid_def)
next
  case (load st f)
  then show ?case using keeps_valid_load_settings by (simp add: keeps_valid_def)
qed


section \<open>The inbound router\<close>

text \<open>
  C1. The claim: no exception raised while validating an inbound field value leaves
  \<^verbatim>\<open>on_message\<close>, a calibration-points report of the wrong shape included. The code at such
  a report: \<^verbatim>\<open>{"value": [[1, 2], ["a", 3]]}\<close> on a topic ending in
  \<^verbatim>\<open>calib_points_resolution\<close> reaches \<^verbatim>\<open>handle_calib_points_resolution\<close>, whose
  \<^verbatim>\<open>verify_calib_points\<close> raises \<^verbatim>\<open>TypeError\<close>; the handler catches \<^verbatim>\<open>ValueError\<close> only, and
  the \<^verbatim>\<open>TypeError\<close> leaves \<^verbatim>\<open>on_message\<close> (the state is as before).
\<close>

theorem on_message_calib_points_type_error:
  "on_message ''qsource3/response/dev/calib_points_resolution''
     (Json (PDict [(''value'', PList [PList [PInt 1, PInt 2], PList [PStr ''a'', PInt 3]])]))
     (init ''qsource3'' ''dev'')
   = (Raises TypeError, init ''qsource3'' ''dev'')"
  by code_simp

text \<open>
  C2. The claim: a payload that cannot be decoded is treated as an empty record and the
  dispatch completes normally, a field report without its \<^verbatim>\<open>value\<close> key leaving the field
  as it is. The code on the topic of the \<^verbatim>\<open>mz\<close> report: a payload that is not JSON becomes
  \<^verbatim>\<open>{}\<close>, \<^verbatim>\<open>handle_mz\<close> evaluates \<^verbatim>\<open>payload["value"]\<close>, and the \<^verbatim>\<open>KeyError\<close> leaves
  \<^verbatim>\<open>on_message\<close>; so does it for the JSON record \<^verbatim>\<open>{}\<close>; and payload bytes that are not
  UTF-8 raise \<^verbatim>\<open>UnicodeDecodeError\<close> before any dispatch.
\<close>

theorem on_message_missing_value_key_error:
  "on_message ''qsource3/response/dev/mz'' NotJson (init ''qsource3'' ''dev'')
     = (Raises KeyError, init ''qsource3'' ''dev'')
   \<and> on_message ''qsource3/response/dev/mz'' (Json (PDict [])) (init ''qsource3'' ''dev'')
     = (Raises KeyError, init ''qsource3'' ''dev'')
   \<and> on_message ''qsource3/response/dev/mz'' NotUtf8 (init ''qsource3'' ''dev'')
     = (Raises UnicodeDecodeError, init ''qsource3'' ''dev'')"
  by code_simp

text \<open>
  C3. The claim: a telemetry value, such as \<^verbatim>\<open>max_mz\<close> reported on a topic ending in
  \<^verbatim>\<open>max_mz\<close>, is forwarded as a notification and never written into the settings. The code
  at that report: a topic ending in \<^verbatim>\<open>max_mz\<close> ends in \<^verbatim>\<open>mz\<close>, the branch tested first, so
  \<^verbatim>\<open>handle_mz\<close> runs: the value \<^verbatim>\<open>500\<close> is stored under \<^verbatim>\<open>mz\<close> in the settings and
  \<^verbatim>\<open>signal_mz_changed\<close> is emitted, not \<^verbatim>\<open>signal_max_mz_changed\<close>.
\<close>

theorem on_message_max_mz_overwrites_mz:
  "on_message ''qsource3/response/dev/max_mz'' (Json (PDict [(''value'', PInt 500)]))
     (init ''qsource3'' ''dev'')
   = (ReturnsNone,
      (init ''qsource3'' ''dev'')
        \<lparr>settings := AList.update ''mz'' (PInt 500) (settings (init ''qsource3'' ''dev'')),
         emitted := [MzChanged (PInt 500)]\<rparr>)
   \<and> map_of (settings (init ''qsource3'' ''dev'')) ''mz'' = Some (PInt 0)
   \<and> map_of (settings (snd (on_message ''qsource3/response/dev/max_mz''
         (Json (PDict [(''value'', PInt 500)])) (init ''qsource3'' ''dev'')))) ''mz''
       = Some (PInt 500)"
  by code_simp





text \<open>
  C7. A device-connected message (a topic containing \<^verbatim>\<open>/connected/\<close>, a payload that
  decodes as text) received while the client is connected emits the status
  \<^verbatim>\<open>connected\<close> and publishes the resync sequence once, in order: the state request, then
  the requests for \<^verbatim>\<open>dc_offst\<close>, \<^verbatim>\<open>calib_pnts_rf\<close> and \<^verbatim>\<open>calib_pnts_dc\<close>; nothing else changes.
  A second such message publishes the whole sequence again.
\<close>

theorem device_connected_resync:
  assumes "sublist ''/connected/'' topic" and "b \<noteq> NotUtf8"
    and "sublist ''/connected/'' topic'" and "b' \<noteq> NotUtf8"
    and "is_connected st"
  shows "on_message topic b st =
           (ReturnsNone,
            st\<lparr>emitted := emitted st @ [DeviceStatusChanged ''connected''],
               published := published st @ resync_requests st\<rparr>)
         \<and> published (snd (on_message topic' b' (snd (on_message topic b st)))) =
             published st @ resync_requests st @ resync_requests st"
proof -
  have once: "on_message t c s =
           (ReturnsNone,
            s\<lparr>emitted := emitted s @ [DeviceStatusChanged ''connected''],
              published := published s @ resync_requests s\<rparr>)"
    if "sublist ''/connected/'' t" and "c \<noteq> NotUtf8" and "is_connected s" for t c s
    using that
    by (cases c)
      (simp_all add: on_message_def decode_payload_def dispatch_def handle_device_connected_def
        request_device_state_def request_dc_offst_def request_calib_points_mz_def
        request_calib_points_resolution_def client_connected_def request_body_def
        client_publish_def cmnd_topic_def emit_def resync_requests_def)
  have first: "on_message topic b st =
           (ReturnsNone,
            st\<lparr>emitted := emitted st @ [DeviceStatusChanged ''connected''],
               published := published st @ resync_requests st\<rparr>)"
    using assms(1,2,5) by (rule once)
  have second: "published (snd (on_message topic' b' (snd (on_message topic b st)))) =
             published st @ resync_requests st @ resync_requests st"
    unfolding first using assms(3,4,5) by (simp add: once resync_requests_def)
  show ?thesis
    using first second by simp
qed

theorem device_connected_resync_witness:
  "sublist ''/connected/'' ''qsource3/connected/dev''
   \<and> Json (PDict []) \<noteq> NotUtf8
   \<and> is_connected ((init ''qsource3'' ''dev'')\<lparr>is_connected := True\<rparr>)
   \<and> published (snd (on_message ''qsource3/connected/dev'' (Json (PDict []))
        ((init ''qsource3'' ''dev'')\<lparr>is_connected := True\<rparr>))) =
       [(''qsource3/cmnd/dev/state'', PDict []),
        (''qsource3/cmnd/dev/dc_offst'', PDict []),
        (''qsource3/cmnd/dev/calib_pnts_rf'', PDict []),
        (''qsource3/cmnd/dev/calib_pnts_dc'', PDict [])]
   \<and> length (published (snd (on_message ''qsource3/connected/dev'' (Json (PDict []))
        (snd (on_message ''qsource3/connected/dev'' (Json (PDict []))
          ((init ''qsource3'' ''dev'')\<lparr>is_connected := True\<rparr>)))))) = 8"
proof -
  have t: "sublist ''/connected/'' ''qsource3/connected/dev''"
    by code_simp
  have p: "Json (PDict []) \<noteq> NotUtf8"
    by simp
  have c: "is_connected ((init ''qsource3'' ''dev'')\<lparr>is_connected := True\<rparr>)"
    by simp
  note r = device_connected_resync [OF t p t p c]
  have once: "published (snd (on_message ''qsource3/connected/dev'' (Json (PDict []))
        ((init ''qsource3'' ''dev'')\<lparr>is_connected := True\<rparr>))) =
       [(''qsource3/cmnd/dev/state'', PDict []),
        (''qsource3/cmnd/dev/dc_offst'', PDict []),
        (''qsource3/cmnd/dev/calib_pnts_rf'', PDict []),
        (''qsource3/cmnd/dev/calib_pnts_dc'', PDict [])]"
    by (simp only: conjunct1 [OF r]) (simp add: resync_requests_def init_def)
  have twice: "length (published (snd (on_message ''qsource3/connected/dev'' (Json (PDict []))
        (snd (on_message ''qsource3/connected/dev'' (Json (PDict []))
          ((init ''qsource3'' ''dev'')\<lparr>is_connected := True\<rparr>)))))) = 8"
    by (simp only: conjunct2 [OF r]) (simp add: resync_requests_def init_def)
  show ?thesis
    using t p c once twice by blast
qed

section \<open>The command publisher\<close>

text \<open>
  C5, as the claim states it: a publish while the client is not connected returns a
  rejection to the caller. The code returns \<^verbatim>\<open>None\<close> there, which is what a successful
  publish returns: \<^verbatim>\<open>publish_mz(5)\<close> on the object as constructed (not connected) and on the
  same object once connected.
\<close>

theorem publish_not_connected_counterexample:
  "\<not> is_connected (init ''qsource3'' ''dev'')
   \<and> fst (publish_mz (PInt 5) (init ''qsource3'' ''dev'')) = ReturnsNone
   \<and> fst (publish_mz (PInt 5) ((init ''qsource3'' ''dev'')\<lparr>is_connected := True\<rparr>))
       = ReturnsNone"
  by code_simp

text \<open>
  C5, amended. For every field and every value, a publish while the client is not
  connected returns \<^verbatim>\<open>None\<close> at once and leaves the whole state as it was: no settings
  field is changed and nothing is published. The four request functions do the same.
\<close>

theorem publish_not_connected_noop:
  assumes "\<not> is_connected st"
  shows "publish_field F v st = (ReturnsNone, st)
         \<and> request_device_state st = (ReturnsNone, st)
         \<and> request_dc_offst st = (ReturnsNone, st)
         \<and> request_calib_points_mz st = (ReturnsNone, st)
         \<and> request_calib_points_resolution st = (ReturnsNone, st)"
  using assms
  by (simp add: publish_field_eq client_connected_def request_device_state_def
      request_dc_offst_def request_calib_points_mz_def request_calib_points_resolution_def)

theorem publish_not_connected_noop_witness:
  "\<not> is_connected (init ''qsource3'' ''dev'')
   \<and> publish_field Mz (PInt 5) (init ''qsource3'' ''dev'')
       = (ReturnsNone, init ''qsource3'' ''dev'')
   \<and> request_device_state (init ''qsource3'' ''dev'') = (ReturnsNone, init ''qsource3'' ''dev'')"
proof -
  have h: "\<not> is_connected (init ''qsource3'' ''dev'')"
    by (simp add: init_def)
  show ?thesis
    using h publish_not_connected_noop [OF h, of Mz "PInt 5"] by blast
qed

text \<open>
  C8. While the client is connected, a publish of a value that passes the field's
  validator returns, sets that field's key of the settings to the value (every other key
  keeps its value) and publishes one message, \<^verbatim>\<open>{"value": v}\<close> on
  \<^verbatim>\<open>{base}/cmnd/{device}/{field code}\<close>; a value that fails the validator raises the
  validator's exception and leaves the whole state as it was.
\<close>

theorem publish_connected_effect:
  assumes "is_connected st"
  shows "(validator F v = Inr () \<longrightarrow>
            publish_field F v st =
              (ReturnsNone,
               st\<lparr>settings := AList.update (settings_key F) v (settings st),
                  published := published st
                    @ [(topic_base st @ ''/cmnd/'' @ device_name st @ ''/'' @ field_code F,
                        PDict [(''value'', v)])]\<rparr>)
            \<and> map_of (settings (snd (publish_field F v st))) (settings_key F) = Some v
            \<and> (\<forall>k. k \<noteq> settings_key F \<longrightarrow>
                  map_of (settings (snd (publish_field F v st))) k = map_of (settings st) k))
       \<and> (validator F v \<noteq> Inr () \<longrightarrow>
            (\<exists>e. validator F v = Inl e \<and> publish_field F v st = (Raises e, st)))"
proof -
  have p: "publish_field F v st = publish_body (validator F) (settings_key F) (field_code F) v st"
    using assms by (simp add: publish_field_eq client_connected_def)
  show ?thesis
  proof (cases "validator F v")
    case (Inl e)
    then show ?thesis by (simp add: p publish_body_def)
  next
    case (Inr u)
    then show ?thesis
      by (simp add: p publish_body_def client_publish_def set_setting_def cmnd_topic_def
          update_conv')
  qed
qed

theorem publish_connected_effect_witness:
  "is_connected ((init ''qsource3'' ''dev'')\<lparr>is_connected := True\<rparr>)
   \<and> validator Mz (PFloat 5) = Inr ()
   \<and> publish_field Mz (PFloat 5) ((init ''qsource3'' ''dev'')\<lparr>is_connected := True\<rparr>) =
       (ReturnsNone,
        (init ''qsource3'' ''dev'')
          \<lparr>is_connected := True,
           settings := AList.update ''mz'' (PFloat 5) (settings (init ''qsource3'' ''dev'')),
           published := [(''qsource3/cmnd/dev/mz'', PDict [(''value'', PFloat 5)])]\<rparr>)
   \<and> validator Mz (PInt (- 1)) \<noteq> Inr ()
   \<and> publish_field Mz (PInt (- 1)) ((init ''qsource3'' ''dev'')\<lparr>is_connected := True\<rparr>) =
       (Raises ValueError, (init ''qsource3'' ''dev'')\<lparr>is_connected := True\<rparr>)"
proof -
  have c: "is_connected ((init ''qsource3'' ''dev'')\<lparr>is_connected := True\<rparr>)"
    by simp
  have ok: "validator Mz (PFloat 5) = Inr ()"
    by (simp add: check_mz_def)
  have bad: "validator Mz (PInt (- 1)) = Inl ValueError"
    by (simp add: check_mz_def)
  show ?thesis
    using c ok bad
      publish_connected_effect [OF c, of Mz "PFloat 5"]
      publish_connected_effect [OF c, of Mz "PInt (- 1)"]
    by (simp add: init_def)
qed

section \<open>Settings files\<close>

text \<open>
  C6. Loading a snapshot is all or nothing. When each of the seven fields of the loaded
  record is present and passes its validator, \<^verbatim>\<open>load_settings\<close> returns and the settings are
  the loaded record. When one is missing or fails, \<^verbatim>\<open>load_settings\<close> raises and the whole
  state is as before; with the seven keys present the exception is \<^verbatim>\<open>ValueError\<close>. Whatever
  the file, a load that raises leaves the state as it was.
\<close>

theorem load_settings_all_or_nothing:
  "(snapshot_valid d \<longrightarrow>
      fst (load_settings (JsonFile (PDict d)) st) = ReturnsNone
      \<and> settings (snd (load_settings (JsonFile (PDict d)) st)) = d)
   \<and> (\<not> snapshot_valid d \<longrightarrow> (\<exists>e. load_settings (JsonFile (PDict d)) st = (Raises e, st)))
   \<and> (\<not> snapshot_valid d \<and> has_all_keys d \<longrightarrow>
        load_settings (JsonFile (PDict d)) st = (Raises ValueError, st))
   \<and> (fst (load_settings f st) \<noteq> ReturnsNone \<longrightarrow> snd (load_settings f st) = st)"
proof (intro conjI impI)
  assume "snapshot_valid d"
  then show "fst (load_settings (JsonFile (PDict d)) st) = ReturnsNone"
    and "settings (snd (load_settings (JsonFile (PDict d)) st)) = d"
    using load_settings_valid by simp_all
next
  assume "\<not> snapshot_valid d"
  then obtain e where "verify_settings (PDict d) = Inl e"
    using verify_settings_ok [of d] by (cases "verify_settings (PDict d)") auto
  then show "\<exists>e. load_settings (JsonFile (PDict d)) st = (Raises e, st)"
    using load_settings_raises by blast
next
  assume a: "\<not> snapshot_valid d \<and> has_all_keys d"
  then have "value_error_only (verify_settings (PDict d))"
    using verify_settings_value_error_only by simp
  moreover have "verify_settings (PDict d) \<noteq> Inr ()"
    using a verify_settings_ok by simp
  ultimately have "verify_settings (PDict d) = Inl ValueError"
    by (simp add: value_error_only_def)
  then show "load_settings (JsonFile (PDict d)) st = (Raises ValueError, st)"
    by (rule load_settings_raises)
next
  assume a: "fst (load_settings f st) \<noteq> ReturnsNone"
  show "snd (load_settings f st) = st"
  proof (cases f)
    case Unreadable
    then show ?thesis by (simp add: load_settings_def)
  next
    case NotJsonFile
    then show ?thesis by (simp add: load_settings_def)
  next
    case (JsonFile loaded)
    show ?thesis
    proof (cases "verify_settings loaded")
      case (Inl e)
      then show ?thesis by (simp add: JsonFile load_settings_raises)
    next
      case (Inr u)
      then obtain d' where d': "loaded = PDict d'"
        using verify_settings_dict by auto
      then have "snapshot_valid d'"
        using Inr verify_settings_ok by simp
      then have "fst (load_settings f st) = ReturnsNone"
        using load_settings_valid by (simp add: JsonFile d')
      with a show ?thesis by simp
    qed
  qed
qed

theorem load_settings_all_or_nothing_witness:
  "snapshot_valid
     [(''mass_range'', PInt 2), (''mz'', PInt 150), (''dc_offst'', PInt (- 3)),
      (''dc_on'', PBool False), (''rod_polarity_positive'', PBool True),
      (''calib_points_mz'', PList [PList [PInt 1, PInt 2], PList [PInt 3, PInt 4]]),
      (''calib_points_resolution'', PList [PList [PInt 0, PInt 1]])]
   \<and> fst (load_settings (JsonFile (PDict
       [(''mass_range'', PInt 2), (''mz'', PInt 150), (''dc_offst'', PInt (- 3)),
        (''dc_on'', PBool False), (''rod_polarity_positive'', PBool True),
        (''calib_points_mz'', PList [PList [PInt 1, PInt 2], PList [PInt 3, PInt 4]]),
        (''calib_points_resolution'', PList [PList [PInt 0, PInt 1]])]))
       (init ''qsource3'' ''dev'')) = ReturnsNone
   \<and> settings (snd (load_settings (JsonFile (PDict
       [(''mass_range'', PInt 2), (''mz'', PInt 150), (''dc_offst'', PInt (- 3)),
        (''dc_on'', PBool False), (''rod_polarity_positive'', PBool True),
        (''calib_points_mz'', PList [PList [PInt 1, PInt 2], PList [PInt 3, PInt 4]]),
        (''calib_points_resolution'', PList [PList [PInt 0, PInt 1]])]))
       (init ''qsource3'' ''dev''))) =
       [(''mass_range'', PInt 2), (''mz'', PInt 150), (''dc_offst'', PInt (- 3)),
        (''dc_on'', PBool False), (''rod_polarity_positive'', PBool True),
        (''calib_points_mz'', PList [PList [PInt 1, PInt 2], PList [PInt 3, PInt 4]]),
        (''calib_points_resolution'', PList [PList [PInt 0, PInt 1]])]
   \<and> \<not> snapshot_valid
       [(''mass_range'', PInt 2), (''mz'', PInt (- 1)), (''dc_offst'', PInt (- 3)),
        (''dc_on'', PBool False), (''rod_polarity_positive'', PBool True),
        (''calib_points_mz'', PList [PList [PInt 1, PInt 2], PList [PInt 3, PInt 4]]),
        (''calib_points_resolution'', PList [PList [PInt 0, PInt 1]])]
   \<and> has_all_keys
       [(''mass_range'', PInt 2), (''mz'', PInt (- 1)), (''dc_offst'', PInt (- 3)),
        (''dc_on'', PBool False), (''rod_polarity_positive'', PBool True),
        (''calib_points_mz'', PList [PList [PInt 1, PInt 2], PList [PInt 3, PInt 4]]),
        (''calib_points_resolution'', PList [PList [PInt 0, PInt 1]])]
   \<and> load_settings (JsonFile (PDict
       [(''mass_range'', PInt 2), (''mz'', PInt (- 1)), (''dc_offst'', PInt (- 3)),
        (''dc_on'', PBool False), (''rod_polarity_positive'', PBool True),
        (''calib_points_mz'', PList [PList [PInt 1, PInt 2], PList [PInt 3, PInt 4]]),
        (''calib_points_resolution'', PList [PList [PInt 0, PInt 1]])]))
       (init ''qsource3'' ''dev'') = (Raises ValueError, init ''qsource3'' ''dev'')
   \<and> fst (load_settings NotJsonFile (init ''qsource3'' ''dev'')) \<noteq> ReturnsNone
   \<and> snd (load_settings NotJsonFile (init ''qsource3'' ''dev'')) = init ''qsource3'' ''dev''"
proof -
  let ?good = "[(''mass_range'', PInt 2), (''mz'', PInt 150), (''dc_offst'', PInt (- 3)),
      (''dc_on'', PBool False), (''rod_polarity_positive'', PBool True),
      (''calib_points_mz'', PList [PList [PInt 1, PInt 2], PList [PInt 3, PInt 4]]),
      (''calib_points_resolution'', PList [PList [PInt 0, PInt 1]])]"
  let ?bad = "[(''mass_range'', PInt 2), (''mz'', PInt (- 1)), (''dc_offst'', PInt (- 3)),
      (''dc_on'', PBool False), (''rod_polarity_positive'', PBool True),
      (''calib_points_mz'', PList [PList [PInt 1, PInt 2], PList [PInt 3, PInt 4]]),
      (''calib_points_resolution'', PList [PList [PInt 0, PInt 1]])]"
  have good: "snapshot_valid ?good"
    by code_simp
  have bad: "\<not> snapshot_valid ?bad"
    by code_simp
  have keys: "has_all_keys ?bad"
    by code_simp
  have nj: "fst (load_settings NotJsonFile (init ''qsource3'' ''dev'')) \<noteq> ReturnsNone"
    by (simp add: load_settings_def)
  show ?thesis
    using good bad keys nj
      load_settings_all_or_nothing [of ?good "init ''qsource3'' ''dev''" NotJsonFile]
      load_settings_all_or_nothing [of ?bad "init ''qsource3'' ''dev''" NotJsonFile]
    by blast
qed

text \<open>
  C9. Round trip: when the settings of the object are a valid snapshot, the file written
  by \<^verbatim>\<open>save_settings\<close>, loaded by \<^verbatim>\<open>load_settings\<close> into the object in any later state, is
  accepted, and the settings are again the saved ones: the same keys with the same values
  in the same order, calibration lists included. The settings of every reachable state
  are a valid snapshot, so the round trip holds in every reachable state.
  (\<^verbatim>\<open>json.dump\<close> followed by \<^verbatim>\<open>json.load\<close> is taken to give back the value written.)
\<close>

theorem save_load_round_trip:
  assumes "snapshot_valid (settings st) \<or> reachable st"
  shows "fst (load_settings (save_settings st) st') = ReturnsNone
         \<and> settings (snd (load_settings (save_settings st) st')) = settings st"
proof -
  have "snapshot_valid (settings st)"
    using assms reachable_valid by blast
  then show ?thesis
    using load_settings_valid by (simp add: save_settings_def)
qed

theorem save_load_round_trip_witness:
  "(snapshot_valid (settings (init ''qsource3'' ''dev'')) \<or> reachable (init ''qsource3'' ''dev''))
   \<and> fst (load_settings (save_settings (init ''qsource3'' ''dev''))
        (snd (publish_mz (PInt 7) ((init ''qsource3'' ''dev'')\<lparr>is_connected := True\<rparr>))))
       = ReturnsNone
   \<and> settings (snd (load_settings (save_settings (init ''qsource3'' ''dev''))
        (snd (publish_mz (PInt 7) ((init ''qsource3'' ''dev'')\<lparr>is_connected := True\<rparr>)))))
       = settings (init ''qsource3'' ''dev'')"
proof -
  have v: "snapshot_valid (settings (init ''qsource3'' ''dev'')) \<or> reachable (init ''qsource3'' ''dev'')"
    using init_valid by blast
  show ?thesis
    using v save_load_round_trip [OF v] by blast
qed

section \<open>Booleans and the numeric validators\<close>

text \<open>
  C10. Booleans pass the numeric validators: \<^verbatim>\<open>check_mz\<close> and \<^verbatim>\<open>check_mass_range\<close> accept
  \<^verbatim>\<open>True\<close> (indeed every boolean, as does the validator of \<^verbatim>\<open>dc_offst\<close>), and a connected
  \<^verbatim>\<open>publish_mz(True)\<close> returns normally, stores the boolean \<^verbatim>\<open>True\<close> under \<^verbatim>\<open>mz\<close> in the
  settings and publishes \<^verbatim>\<open>{"value": True}\<close> on the \<^verbatim>\<open>mz\<close> command topic.
\<close>

theorem booleans_pass_numeric_validators:
  "check_mz (PBool True) = Inr ()
   \<and> check_mass_range (PBool True) = Inr ()
   \<and> (\<forall>b. check_mz (PBool b) = Inr () \<and> check_mass_range (PBool b) = Inr ()
          \<and> check_dc_offst (PBool b) = Inr ())
   \<and> publish_mz (PBool True) (st\<lparr>is_connected := True\<rparr>) =
       (ReturnsNone,
        st\<lparr>is_connected := True,
           settings := AList.update ''mz'' (PBool True) (settings st),
           published := published st
              @ [(topic_base st @ ''/cmnd/'' @ device_name st @ ''/mz'',
                  PDict [(''value'', PBool True)])]\<rparr>)
   \<and> map_of (settings (snd (publish_mz (PBool True) (st\<lparr>is_connected := True\<rparr>)))) ''mz''
       = Some (PBool True)"
  by (simp add: check_mz_def check_mass_range_def check_dc_offst_def check_dc_offset_def
      publish_mz_def client_connected_def publish_body_def client_publish_def set_setting_def
      cmnd_topic_def update_conv')


end
